theory Spec2Isabelle
  imports Main
begin

section \<open>The wallet connector component (src/components/Connector.jsx)\<close>

text \<open>
  The component keeps four pieces of React state (\<open>provider\<close>, \<open>accounts\<close>,
  \<open>chainId\<close>, \<open>isConnected\<close>) and talks to an injected EIP-1193 wallet through
  \<open>provider.request\<close>. The wallet is opaque: the model takes its answers as a parameter.
  Every handler becomes a function from the view state to the new view state together
  with the trace of what it did to the outside world (requests sent, lines logged), in
  program order. A rejected promise is the \<open>Inl\<close> branch of a sum. A handler runs
  to its end before the next one starts: the two awaits of \<open>connect\<close> are taken back
  to back, with no notification delivered in between.
\<close>

subsection \<open>Data\<close>

text \<open>The object a rejected request carries; \<open>code\<close> may be missing.\<close>

datatype rpc_error = RpcError (code: "int option") (message: string)

text \<open>The parameter object of \<open>eth_sendTransaction\<close> (fields \<open>from\<close>, \<open>to\<close>, \<open>value\<close>).\<close>

record transaction =
  tx_from :: string
  tx_to :: string
  tx_value :: string

text \<open>The parameter object of \<open>wallet_addEthereumChain\<close>.\<close>

record native_currency =
  currency_name :: string
  symbol :: string
  decimals :: nat

record chain_descriptor =
  descriptor_chainId :: string
  chainName :: string
  rpcUrls :: "string list"
  nativeCurrency :: native_currency
  blockExplorerUrls :: "string list"

text \<open>The five request shapes the component sends (\<open>method\<close> plus \<open>params\<close>).\<close>

datatype request =
    EthRequestAccounts
  | EthChainId
  | WalletSwitchEthereumChain string
  | WalletAddEthereumChain chain_descriptor
  | EthSendTransaction transaction

text \<open>
  What the injected wallet answers to each request at the moment of the call:
  \<open>Inr\<close> the resolved value, \<open>Inl\<close> the rejection.
\<close>

record wallet =
  eth_requestAccounts :: "rpc_error + string list"
  eth_chainId :: "rpc_error + string"
  wallet_switchEthereumChain :: "string \<Rightarrow> rpc_error + unit"
  wallet_addEthereumChain :: "chain_descriptor \<Rightarrow> rpc_error + unit"
  eth_sendTransaction :: "transaction \<Rightarrow> rpc_error + string"

text \<open>The arguments of a \<open>console.log\<close> call, and the observable trace.\<close>

datatype logged = Text string | Accounts "string list" | Failure rpc_error

datatype event = Request request | ConsoleLog "logged list"

text \<open>
  The \<open>useState\<close> cells. \<open>provider\<close> records whether the handle is set
  (\<open>null\<close> is \<open>False\<close>); the handle itself is never inspected.
\<close>

record view =
  provider :: bool
  accounts :: "string list"
  chainId :: string
  isConnected :: bool

definition MAINNET_CHAIN_ID :: string where
  "MAINNET_CHAIN_ID = ''0x1''"

definition SEPOLIA_CHAIN_ID :: string where
  "SEPOLIA_CHAIN_ID = ''0xaa36a7''"

text \<open>The state of the first render: \<open>useState(null)\<close>, \<open>useState([])\<close>,
  \<open>useState('')\<close>, \<open>useState(false)\<close>.\<close>

definition initial :: view where
  "initial = \<lparr>provider = False, accounts = [], chainId = [], isConnected = False\<rparr>"

subsection \<open>Effects and notification handlers\<close>

text \<open>The mount effect: \<open>if (window.ethereum) setProvider(window.ethereum)\<close>.\<close>

definition detectProvider :: "bool \<Rightarrow> view \<Rightarrow> view" where
  "detectProvider window_ethereum s =
     (if window_ethereum then s\<lparr>provider := True\<rparr> else s)"

definition handleAccountsChanged :: "string list \<Rightarrow> view \<Rightarrow> view \<times> event list" where
  "handleAccountsChanged payload s =
     (if length payload > 0
      then (s\<lparr>accounts := payload, isConnected := True\<rparr>,
            [ConsoleLog [Text ''Accounts changed:'', Accounts payload]])
      else (s\<lparr>accounts := [], isConnected := False\<rparr>,
            [ConsoleLog [Text ''Accounts changed:'', Accounts payload]]))"

definition handleChainChanged :: "string \<Rightarrow> view \<Rightarrow> view \<times> event list" where
  "handleChainChanged payload s =
     (s\<lparr>chainId := payload\<rparr>, [ConsoleLog [Text ''Chain changed:'', Text payload]])"

subsection \<open>The five actions\<close>

definition connect :: "wallet \<Rightarrow> view \<Rightarrow> view \<times> event list" where
  "connect w s =
     (if \<not> provider s then (s, [])
      else case eth_requestAccounts w of
        Inl error \<Rightarrow>
          (s, [Request EthRequestAccounts,
               ConsoleLog [Text ''Connection error:'', Failure error]])
      | Inr result \<Rightarrow>
          (let s1 = s\<lparr>accounts := result, isConnected := True\<rparr> in
           case eth_chainId w of
             Inl error \<Rightarrow>
               (s1, [Request EthRequestAccounts, Request EthChainId,
                     ConsoleLog [Text ''Connection error:'', Failure error]])
           | Inr currentChainId \<Rightarrow>
               (s1\<lparr>chainId := currentChainId\<rparr>,
                [Request EthRequestAccounts, Request EthChainId,
                 ConsoleLog [Text ''Connected:'', Accounts result]])))"

definition toggleChain :: "wallet \<Rightarrow> view \<Rightarrow> view \<times> event list" where
  "toggleChain w s =
     (if \<not> provider s then (s, [])
      else
        (let targetChainId =
               (if chainId s = SEPOLIA_CHAIN_ID then MAINNET_CHAIN_ID else SEPOLIA_CHAIN_ID)
         in case wallet_switchEthereumChain w targetChainId of
              Inr _ \<Rightarrow>
                (s, [Request (WalletSwitchEthereumChain targetChainId),
                     ConsoleLog [Text (''Switching to '' @
                       (if targetChainId = MAINNET_CHAIN_ID
                        then ''Ethereum Mainnet'' else ''Sepolia Testnet''))]])
            | Inl error \<Rightarrow>
                (s, [Request (WalletSwitchEthereumChain targetChainId),
                     ConsoleLog [Text ''Error switching chain:'', Failure error]] @
                    (if code error = Some 4902
                     then [ConsoleLog [Text ''Chain not available, please add it first'']]
                     else []))))"

definition mantle :: chain_descriptor where
  "mantle =
     \<lparr>descriptor_chainId = ''0x1388'',
      chainName = ''Mantle'',
      rpcUrls = [''https://rpc.mantle.xyz''],
      nativeCurrency = \<lparr>currency_name = ''Mantle'', symbol = ''MNT'', decimals = 18\<rparr>,
      blockExplorerUrls = [''https://mantlescan.xyz'']\<rparr>"

definition addChain :: "wallet \<Rightarrow> view \<Rightarrow> view \<times> event list" where
  "addChain w s =
     (if \<not> provider s then (s, [])
      else case wallet_addEthereumChain w mantle of
        Inr _ \<Rightarrow>
          (s, [Request (WalletAddEthereumChain mantle),
               ConsoleLog [Text ''Mantle network added'']])
      | Inl error \<Rightarrow>
          (s, [Request (WalletAddEthereumChain mantle),
               ConsoleLog [Text ''Error adding chain:'', Failure error]]))"

definition transferAccount :: "wallet \<Rightarrow> view \<Rightarrow> view \<times> event list" where
  "transferAccount w s =
     (if \<not> provider s \<or> length (accounts s) = 0 then (s, [])
      else if chainId s \<noteq> SEPOLIA_CHAIN_ID
      then (s, [ConsoleLog [Text ''Please switch to Sepolia network first'']])
      else
        (let params = \<lparr>tx_from = accounts s ! 0,
                        tx_to = ''0x5b522A979ea2a5121b651756CD4274C92386f8C2'',
                        tx_value = ''0x38D7EA4C68000''\<rparr>
         in case eth_sendTransaction w params of
              Inr tx \<Rightarrow>
                (s, [Request (EthSendTransaction params),
                     ConsoleLog [Text ''Transaction sent:'', Text tx]])
            | Inl error \<Rightarrow>
                (s, [Request (EthSendTransaction params),
                     ConsoleLog [Text ''Transaction error:'', Failure error]])))"

definition disconnect :: "view \<Rightarrow> view \<times> event list" where
  "disconnect s =
     (if \<not> provider s then (s, [])
      else (s\<lparr>accounts := [], chainId := [], isConnected := False\<rparr>,
            [ConsoleLog [Text ''Disconnected'']]))"

definition getNetworkName :: "string \<Rightarrow> string" where
  "getNetworkName ident =
     (if ident = MAINNET_CHAIN_ID then ''Ethereum Mainnet''
      else if ident = SEPOLIA_CHAIN_ID then ''Sepolia Testnet''
      else if ident = ''0x1388'' then ''Mantle''
      else ''Unknown Network'')"

subsection \<open>Everything that can happen to the panel\<close>

text \<open>
  The buttons call the five actions; the wallet delivers the two notifications, but
  only to a panel that has a provider, since the subscribing effect starts with
  \<open>if (!provider) return\<close>.
\<close>

datatype action =
    Connect
  | ToggleChain
  | AddChain
  | TransferAccount
  | Disconnect
  | AccountsChanged "string list"
  | ChainChanged string

fun step :: "wallet \<Rightarrow> action \<Rightarrow> view \<Rightarrow> view \<times> event list" where
  "step w Connect s = connect w s"
| "step w ToggleChain s = toggleChain w s"
| "step w AddChain s = addChain w s"
| "step w TransferAccount s = transferAccount w s"
| "step w Disconnect s = disconnect s"
| "step w (AccountsChanged payload) s =
     (if provider s then handleAccountsChanged payload s else (s, []))"
| "step w (ChainChanged payload) s =
     (if provider s then handleChainChanged payload s else (s, []))"

text \<open>The view states the panel can be in: the first render, after the mount effect,
  followed by any number of actions and notifications, the wallet answering as it
  likes each time.\<close>

inductive reachable :: "view \<Rightarrow> bool" where
  mounted: "reachable (detectProvider window_ethereum initial)"
| stepped: "reachable s \<Longrightarrow> reachable (fst (step w a s))"

text \<open>The requests in a trace, in order.\<close>

fun requests :: "event list \<Rightarrow> request list" where
  "requests [] = []"
| "requests (Request r # es) = r # requests es"
| "requests (ConsoleLog _ # es) = requests es"

text \<open>Connection flag and account list agree.\<close>

definition in_sync :: "view \<Rightarrow> bool" where
  "in_sync s = (isConnected s = (accounts s \<noteq> []))"

subsection \<open>Sample wallets and states\<close>

definition user_rejected :: rpc_error where
  "user_rejected = RpcError (Some 4001) ''User rejected the request.''"

text \<open>A wallet that grants everything.\<close>

definition granting :: wallet where
  "granting =
     \<lparr>eth_requestAccounts = Inr [''0xabc''],
      eth_chainId = Inr ''0xaa36a7'',
      wallet_switchEthereumChain = (\<lambda>_. Inr ()),
      wallet_addEthereumChain = (\<lambda>_. Inr ()),
      eth_sendTransaction = (\<lambda>_. Inr ''0xfeed'')\<rparr>"

text \<open>A wallet whose account request resolves with no account.\<close>

definition no_accounts :: wallet where
  "no_accounts = granting\<lparr>eth_requestAccounts := Inr []\<rparr>"

text \<open>A wallet that hands out its account and then rejects the chain query.\<close>

definition chain_query_rejected :: wallet where
  "chain_query_rejected = granting\<lparr>eth_chainId := Inl user_rejected\<rparr>"

text \<open>A wallet that rejects the account request.\<close>

definition accounts_rejected :: wallet where
  "accounts_rejected = granting\<lparr>eth_requestAccounts := Inl user_rejected\<rparr>"

definition fresh :: view where
  "fresh = detectProvider True initial"

definition on_sepolia :: view where
  "on_sepolia =
     \<lparr>provider = True, accounts = [''0xabc'', ''0xdef''], chainId = ''0xaa36a7'',
      isConnected = True\<rparr>"

definition on_mainnet :: view where
  "on_mainnet = on_sepolia\<lparr>chainId := ''0x1''\<rparr>"

section \<open>Properties\<close>

subsection \<open>Auxiliary facts\<close>

lemmas action_defs =
  connect_def toggleChain_def addChain_def transferAccount_def disconnect_def
  handleAccountsChanged_def handleChainChanged_def

lemma step_no_provider: "\<not> provider s \<Longrightarrow> step w a s = (s, [])"
  by (cases a) (simp_all add: action_defs)

lemma step_provider: "provider (fst (step w a s)) = provider s"
  by (cases a) (simp_all add: action_defs Let_def split: sum.splits)

text \<open>Nothing writes to the view before a provider has been found.\<close>

lemma reachable_no_provider: "reachable s \<Longrightarrow> \<not> provider s \<Longrightarrow> s = initial"
proof (induction rule: reachable.induct)
  case (mounted window_ethereum)
  then show ?case by (simp add: detectProvider_def split: if_splits)
next
  case (stepped s w a)
  from stepped.prems have np: "\<not> provider s" by (simp add: step_provider)
  with stepped.IH have "s = initial" by simp
  with np show ?case by (simp add: step_no_provider)
qed

text \<open>
  Flag and list stay in agreement under every action and notification but one: a
  \<open>connect\<close> whose account request resolves with the empty list.
\<close>

lemma step_keeps_sync:
  "in_sync s \<Longrightarrow> \<not> (a = Connect \<and> provider s \<and> eth_requestAccounts w = Inr []) \<Longrightarrow>
   in_sync (fst (step w a s))"
  by (cases a) (auto simp: action_defs in_sync_def Let_def split: sum.splits)

subsection \<open>The connection flag and the account list\<close>

text \<open>
  C1. The claim: in every reachable view state the connection flag is true exactly when
  the account list is non-empty, also after a \<open>connect\<close> whose account request returns
  an empty list. The code at that input: on the freshly mounted panel (reachable, flag
  and list in agreement), a wallet answering \<open>eth_requestAccounts\<close> with \<open>[]\<close> makes
  \<open>connect\<close> store the empty list and set the flag to true all the same, so the
  resulting state has the flag set over an empty account list.
\<close>

theorem connect_empty_result_out_of_sync:
  "reachable fresh \<and> in_sync fresh \<and>
   eth_requestAccounts no_accounts = Inr [] \<and>
   fst (connect no_accounts fresh) =
     \<lparr>provider = True, accounts = [], chainId = ''0xaa36a7'', isConnected = True\<rparr> \<and>
   \<not> in_sync (fst (connect no_accounts fresh))"
proof -
  have "reachable fresh" unfolding fresh_def by (rule reachable.mounted)
  then show ?thesis
    by (simp add: fresh_def detectProvider_def initial_def no_accounts_def granting_def
        connect_def in_sync_def)
qed

subsection \<open>A failing connect\<close>

text \<open>
  C2, as stated, fails: when the account request succeeds and the chain-identifier
  request is then rejected, \<open>connect\<close> has already stored the accounts and set the
  flag, so the view differs from the one before the call.
\<close>

theorem connect_chain_query_rejected_counterexample:
  "provider fresh \<and> eth_requestAccounts chain_query_rejected = Inr [''0xabc''] \<and>
   eth_chainId chain_query_rejected = Inl user_rejected \<and>
   fst (connect chain_query_rejected fresh) \<noteq> fresh"
  by (simp add: fresh_def detectProvider_def initial_def chain_query_rejected_def granting_def
      connect_def)

text \<open>
  C2, amended. If the account request is rejected, \<open>connect\<close> leaves the whole view
  state as it was. If the account request succeeds and the chain-identifier request is
  rejected, the chain identifier and the provider handle are as before, the account
  list is the list the wallet returned, and for a non-empty list the connection flag
  is true.
\<close>

theorem connect_failure_effect:
  "(eth_requestAccounts w = Inl e \<longrightarrow> fst (connect w s) = s) \<and>
   (provider s \<and> eth_requestAccounts w = Inr result \<and> eth_chainId w = Inl e \<longrightarrow>
      accounts (fst (connect w s)) = result \<and>
      chainId (fst (connect w s)) = chainId s \<and>
      provider (fst (connect w s)) = provider s \<and>
      (result \<noteq> [] \<longrightarrow> isConnected (fst (connect w s))))"
  by (simp add: connect_def)

theorem connect_failure_effect_witness:
  "eth_requestAccounts accounts_rejected = Inl user_rejected \<and>
   fst (connect accounts_rejected on_sepolia) = on_sepolia \<and>
   provider fresh \<and> eth_requestAccounts chain_query_rejected = Inr [''0xabc''] \<and>
   eth_chainId chain_query_rejected = Inl user_rejected \<and>
   accounts (fst (connect chain_query_rejected fresh)) = [''0xabc''] \<and>
   chainId (fst (connect chain_query_rejected fresh)) = [] \<and>
   isConnected (fst (connect chain_query_rejected fresh))"
  using connect_failure_effect [of accounts_rejected user_rejected on_sepolia]
    connect_failure_effect [of chain_query_rejected user_rejected fresh "[''0xabc'']"]
  by (simp add: accounts_rejected_def chain_query_rejected_def granting_def fresh_def
      detectProvider_def initial_def)

subsection \<open>The transfer\<close>

text \<open>
  C3. \<open>transferAccount\<close> sends a request exactly when a provider handle exists, the
  account list is non-empty and the stored chain identifier is \<open>0xaa36a7\<close>; it then
  sends exactly one request, \<open>eth_sendTransaction\<close> from the first account of the list
  to the fixed recipient with the fixed value.
\<close>

theorem transferAccount_request:
  "(requests (snd (transferAccount w s)) \<noteq> [] \<longleftrightarrow>
      provider s \<and> accounts s \<noteq> [] \<and> chainId s = ''0xaa36a7'') \<and>
   (provider s \<and> accounts s \<noteq> [] \<and> chainId s = ''0xaa36a7'' \<longrightarrow>
      requests (snd (transferAccount w s)) =
        [EthSendTransaction
           \<lparr>tx_from = hd (accounts s),
            tx_to = ''0x5b522A979ea2a5121b651756CD4274C92386f8C2'',
            tx_value = ''0x38D7EA4C68000''\<rparr>])"
  by (auto simp: transferAccount_def SEPOLIA_CHAIN_ID_def Let_def hd_conv_nth
      split: sum.splits)

theorem transferAccount_request_witness:
  "provider on_sepolia \<and> accounts on_sepolia \<noteq> [] \<and> chainId on_sepolia = ''0xaa36a7'' \<and>
   requests (snd (transferAccount granting on_sepolia)) =
     [EthSendTransaction
        \<lparr>tx_from = ''0xabc'',
         tx_to = ''0x5b522A979ea2a5121b651756CD4274C92386f8C2'',
         tx_value = ''0x38D7EA4C68000''\<rparr>]"
  using transferAccount_request [of granting on_sepolia]
  by (simp add: on_sepolia_def)

text \<open>
  C9. \<open>transferAccount\<close> returns the view state it was given, whether it stops at a
  guard, the request succeeds or the request is rejected; it sends at most one
  request.
\<close>

theorem transferAccount_frame:
  "fst (transferAccount w s) = s \<and> length (requests (snd (transferAccount w s))) \<le> 1"
  by (simp add: transferAccount_def Let_def split: sum.splits)

theorem transferAccount_frame_witness:
  "provider on_sepolia \<and> length (accounts on_sepolia) \<noteq> 0 \<and>
   fst (transferAccount granting on_sepolia) = on_sepolia \<and>
   fst (transferAccount accounts_rejected fresh) = fresh \<and>
   length (requests (snd (transferAccount granting on_sepolia))) \<le> 1"
  using transferAccount_frame [of granting on_sepolia]
    transferAccount_frame [of accounts_rejected fresh]
  by (simp add: on_sepolia_def)

subsection \<open>Switching chains\<close>

text \<open>
  C4. With a provider present, \<open>toggleChain\<close> asks for \<open>0x1\<close> when the stored
  identifier is \<open>0xaa36a7\<close>, for \<open>0xaa36a7\<close> when it is \<open>0x1\<close>, and for \<open>0xaa36a7\<close>
  when it is neither (the empty string included).
\<close>

theorem toggleChain_target:
  "provider s \<Longrightarrow>
   (chainId s = ''0xaa36a7'' \<longrightarrow>
      requests (snd (toggleChain w s)) = [WalletSwitchEthereumChain ''0x1'']) \<and>
   (chainId s = ''0x1'' \<longrightarrow>
      requests (snd (toggleChain w s)) = [WalletSwitchEthereumChain ''0xaa36a7'']) \<and>
   (chainId s \<noteq> ''0x1'' \<and> chainId s \<noteq> ''0xaa36a7'' \<longrightarrow>
      requests (snd (toggleChain w s)) = [WalletSwitchEthereumChain ''0xaa36a7''])"
  by (simp add: toggleChain_def SEPOLIA_CHAIN_ID_def MAINNET_CHAIN_ID_def Let_def
      split: sum.splits)

theorem toggleChain_target_witness:
  "provider on_sepolia \<and> chainId on_sepolia = ''0xaa36a7'' \<and>
   requests (snd (toggleChain granting on_sepolia)) = [WalletSwitchEthereumChain ''0x1''] \<and>
   provider on_mainnet \<and> chainId on_mainnet = ''0x1'' \<and>
   requests (snd (toggleChain granting on_mainnet)) = [WalletSwitchEthereumChain ''0xaa36a7''] \<and>
   provider fresh \<and> chainId fresh = [] \<and>
   requests (snd (toggleChain granting fresh)) = [WalletSwitchEthereumChain ''0xaa36a7'']"
  using toggleChain_target [of on_sepolia granting] toggleChain_target [of on_mainnet granting]
    toggleChain_target [of fresh granting]
  by (simp add: on_sepolia_def on_mainnet_def fresh_def detectProvider_def initial_def)

text \<open>
  C10. \<open>toggleChain\<close> and \<open>addChain\<close> return the view state unchanged. The
  chain-changed handler stores its payload as it is, and an action or notification
  that changes the stored chain identifier is \<open>connect\<close>, \<open>disconnect\<close> or the
  chain-changed notification carrying the new identifier.
\<close>

theorem chainId_writers:
  "fst (toggleChain w s) = s \<and> fst (addChain w s) = s \<and>
   chainId (fst (handleChainChanged payload s)) = payload \<and>
   (chainId (fst (step w a s)) \<noteq> chainId s \<longrightarrow>
      a = Connect \<or> a = Disconnect \<or> a = ChainChanged (chainId (fst (step w a s))))"
proof -
  have "fst (toggleChain w s) = s"
    by (simp add: toggleChain_def Let_def split: sum.splits)
  moreover have "fst (addChain w s) = s"
    by (simp add: addChain_def split: sum.splits)
  moreover have "chainId (fst (handleChainChanged payload s)) = payload"
    by (simp add: handleChainChanged_def)
  moreover have "chainId (fst (step w a s)) \<noteq> chainId s \<longrightarrow>
      a = Connect \<or> a = Disconnect \<or> a = ChainChanged (chainId (fst (step w a s)))"
    by (cases a)
      (simp_all add: toggleChain_def addChain_def transferAccount_def handleChainChanged_def
        handleAccountsChanged_def Let_def split: sum.splits)
  ultimately show ?thesis by simp
qed

theorem chainId_writers_witness:
  "chainId (fst (step granting (ChainChanged ''0x1'') on_sepolia)) \<noteq> chainId on_sepolia \<and>
   chainId (fst (step granting (ChainChanged ''0x1'') on_sepolia)) = ''0x1'' \<and>
   fst (toggleChain granting on_sepolia) = on_sepolia \<and>
   fst (addChain granting on_sepolia) = on_sepolia"
  using chainId_writers [of granting on_sepolia "''0x1''" "ChainChanged ''0x1''"]
  by (simp add: on_sepolia_def)

subsection \<open>Notifications\<close>

text \<open>
  C5. Whatever the view state, the accounts-changed handler given an empty list empties
  the account list and clears the connection flag; given a non-empty list it stores
  that list and sets the flag.
\<close>

theorem handleAccountsChanged_effect:
  "(payload = [] \<longrightarrow>
      accounts (fst (handleAccountsChanged payload s)) = [] \<and>
      \<not> isConnected (fst (handleAccountsChanged payload s))) \<and>
   (payload \<noteq> [] \<longrightarrow>
      accounts (fst (handleAccountsChanged payload s)) = payload \<and>
      isConnected (fst (handleAccountsChanged payload s)))"
  by (simp add: handleAccountsChanged_def)

theorem handleAccountsChanged_effect_witness:
  "accounts (fst (handleAccountsChanged [] on_sepolia)) = [] \<and>
   \<not> isConnected (fst (handleAccountsChanged [] on_sepolia)) \<and>
   [''0x123''] \<noteq> [] \<and>
   accounts (fst (handleAccountsChanged [''0x123''] fresh)) = [''0x123''] \<and>
   isConnected (fst (handleAccountsChanged [''0x123''] fresh))"
  using handleAccountsChanged_effect [of "[]" on_sepolia]
    handleAccountsChanged_effect [of "[''0x123'']" fresh]
  by simp

subsection \<open>Network names\<close>

text \<open>
  C6. \<open>getNetworkName\<close> is a function of its argument alone: it gives the three fixed
  labels for \<open>0x1\<close>, \<open>0xaa36a7\<close> and \<open>0x1388\<close>, and \<open>Unknown Network\<close> for every
  other string, the empty one included.
\<close>

theorem getNetworkName_table:
  "getNetworkName ''0x1'' = ''Ethereum Mainnet'' \<and>
   getNetworkName ''0xaa36a7'' = ''Sepolia Testnet'' \<and>
   getNetworkName ''0x1388'' = ''Mantle'' \<and>
   getNetworkName [] = ''Unknown Network'' \<and>
   (ident \<noteq> ''0x1'' \<and> ident \<noteq> ''0xaa36a7'' \<and> ident \<noteq> ''0x1388'' \<longrightarrow>
      getNetworkName ident = ''Unknown Network'')"
  by (simp add: getNetworkName_def SEPOLIA_CHAIN_ID_def MAINNET_CHAIN_ID_def)

theorem getNetworkName_table_witness:
  "''0x89'' \<noteq> ''0x1'' \<and> ''0x89'' \<noteq> ''0xaa36a7'' \<and> ''0x89'' \<noteq> ''0x1388'' \<and>
   getNetworkName ''0x89'' = ''Unknown Network''"
  using getNetworkName_table [of "''0x89''"] by simp

subsection \<open>Without a provider\<close>

text \<open>
  C7. In a reachable view state without a provider handle, each of the five actions
  returns at once: the state is returned as it is, the trace is empty (no request, no
  log line), and the state is the initial one (no account, empty chain identifier,
  flag false).
\<close>

theorem no_provider_noop:
  "reachable s \<Longrightarrow> \<not> provider s \<Longrightarrow>
   connect w s = (s, []) \<and> toggleChain w s = (s, []) \<and> addChain w s = (s, []) \<and>
   transferAccount w s = (s, []) \<and> disconnect s = (s, []) \<and>
   accounts s = [] \<and> chainId s = [] \<and> \<not> isConnected s"
proof -
  assume r: "reachable s" and np: "\<not> provider s"
  from r np have "s = initial" by (rule reachable_no_provider)
  then have "accounts s = [] \<and> chainId s = [] \<and> \<not> isConnected s"
    by (simp add: initial_def)
  moreover from np have "connect w s = (s, [])" by (simp add: connect_def)
  moreover from np have "toggleChain w s = (s, [])" by (simp add: toggleChain_def)
  moreover from np have "addChain w s = (s, [])" by (simp add: addChain_def)
  moreover from np have "transferAccount w s = (s, [])" by (simp add: transferAccount_def)
  moreover from np have "disconnect s = (s, [])" by (simp add: disconnect_def)
  ultimately show ?thesis by simp
qed

theorem no_provider_noop_witness:
  "reachable (detectProvider False initial) \<and> \<not> provider (detectProvider False initial) \<and>
   connect granting (detectProvider False initial) = (initial, []) \<and>
   toggleChain granting (detectProvider False initial) = (initial, []) \<and>
   addChain granting (detectProvider False initial) = (initial, []) \<and>
   transferAccount granting (detectProvider False initial) = (initial, []) \<and>
   disconnect (detectProvider False initial) = (initial, [])"
proof -
  have r: "reachable (detectProvider False initial)" by (rule reachable.mounted)
  have np: "\<not> provider (detectProvider False initial)"
    by (simp add: detectProvider_def initial_def)
  from no_provider_noop [OF r np, of granting] r np show ?thesis
    by (simp add: detectProvider_def)
qed

subsection \<open>Disconnecting\<close>

text \<open>
  C8. From every view state the panel can be in, \<open>disconnect\<close> ends with an empty
  account list, an empty chain identifier and the flag false, and sends no request.
  The function takes no wallet: the result does not depend on the wallet's session.
  (With a provider it clears the three cells; without one it returns at its guard, and
  the cells of a reachable state are then still at their initial values.)
\<close>

theorem disconnect_clears:
  "reachable s \<or> provider s \<Longrightarrow>
   accounts (fst (disconnect s)) = [] \<and> chainId (fst (disconnect s)) = [] \<and>
   \<not> isConnected (fst (disconnect s)) \<and> requests (snd (disconnect s)) = []"
proof (cases "provider s")
  case True
  then show ?thesis by (simp add: disconnect_def)
next
  case False
  assume "reachable s \<or> provider s"
  with False have "s = initial" by (simp add: reachable_no_provider)
  then show ?thesis by (simp add: disconnect_def initial_def)
qed

theorem disconnect_clears_witness:
  "provider on_sepolia \<and> accounts on_sepolia \<noteq> [] \<and>
   accounts (fst (disconnect on_sepolia)) = [] \<and> chainId (fst (disconnect on_sepolia)) = [] \<and>
   \<not> isConnected (fst (disconnect on_sepolia)) \<and> requests (snd (disconnect on_sepolia)) = []"
  using disconnect_clears [of on_sepolia]
  by (simp add: on_sepolia_def)

end
